theory Spec2Isabelle
  imports Main "HOL-Library.Word"
begin

unbundle bit_operations_syntax

section \<open>Bytes, exceptions and the outcome of a call\<close>

text \<open>
  Python \<^verbatim>\<open>bytes\<close> are lists of 8-bit words. The integers of the wire format are
  unsigned 32-bit words.
\<close>

type_synonym byte = "8 word"
type_synonym bytes = "byte list"
type_synonym u32 = "32 word"

text \<open>
  The error numbers a \<^verbatim>\<open>socket.error\<close> can carry. \<^verbatim>\<open>errno.EAGAIN\<close> and
  \<^verbatim>\<open>errno.EWOULDBLOCK\<close> are the two the source compares against.
\<close>

datatype errno = EAGAIN | EWOULDBLOCK | EBADF | EPIPE | ECONNRESET | ETIMEDOUT

text \<open>
  The exceptions of the modelled code, all of them subclasses of Python's
  \<^verbatim>\<open>Exception\<close>. \<^verbatim>\<open>socket_error\<close> is \<^verbatim>\<open>socket.error\<close> (\<^verbatim>\<open>OSError\<close>),
  \<^verbatim>\<open>struct_error\<close> is \<^verbatim>\<open>struct.error\<close>, \<^verbatim>\<open>ftp_error\<close> stands for the
  errors of \<^verbatim>\<open>ftplib\<close>.
\<close>

datatype exn =
    RuntimeError string
  | socket_error errno
  | struct_error
  | KeyError string
  | TypeError
  | ValueError
  | AttributeError
  | FormatError
  | ftp_error string

text \<open>
  A call returns a value, raises an exception, or never returns because it is blocked
  in a system call on a descriptor on which nothing will ever happen.
\<close>

datatype 'a outcome = Returns 'a | Raises exn | Blocks

section \<open>The packet codec\<close>

text \<open>
  \<^verbatim>\<open>struct.pack('!I', w)\<close>: the four bytes of a 32-bit word, most significant first.
\<close>

definition pack_be32 :: "u32 \<Rightarrow> bytes" where
  "pack_be32 w =
     [ucast (drop_bit 24 w), ucast (drop_bit 16 w), ucast (drop_bit 8 w), ucast w]"

text \<open>The value of four big-endian bytes.\<close>

fun be32_value :: "bytes \<Rightarrow> u32" where
  "be32_value [a, b, c, d] =
     push_bit 24 (ucast a) OR push_bit 16 (ucast b) OR push_bit 8 (ucast c) OR ucast d"
| "be32_value _ = 0"

text \<open>
  \<^verbatim>\<open>struct.unpack('!I', bs)[0]\<close>, as \<^verbatim>\<open>TLVClient.read\<close> calls it: it raises
  \<^verbatim>\<open>struct.error\<close> unless the buffer holds exactly four bytes.
\<close>

definition unpack_be32 :: "bytes \<Rightarrow> exn + u32" where
  "unpack_be32 bs = (if length bs = 4 then Inr (be32_value bs) else Inl struct_error)"

text \<open>
  Modelled from the spec: the class \<^verbatim>\<open>TLVPacket\<close> of \<^verbatim>\<open>pex/proto/tlv/packet.py\<close>,
  which the client imports and which is not among the source files. The spec (3, 4.1, 6)
  describes a packet as a 32-bit type and a payload.
\<close>

record TLVPacket =
  ptype :: u32
  payload :: bytes

text \<open>
  Modelled from the spec: \<^verbatim>\<open>encode(type, payload)\<close> of \<^verbatim>\<open>packet.py\<close> (absent),
  spec 4.1 and 6: the type in four big-endian bytes, the length of the payload in four
  big-endian bytes, the payload. The spec gives the length field 32 bits and says
  nothing about a payload whose length does not fit; here the field then holds the
  length modulo \<open>2 ^ 32\<close>.
\<close>

definition encode :: "u32 \<Rightarrow> bytes \<Rightarrow> bytes" where
  "encode t v = pack_be32 t @ pack_be32 (word_of_nat (length v)) @ v"

text \<open>
  Modelled from the spec: \<^verbatim>\<open>decode(buffer)\<close> of \<^verbatim>\<open>packet.py\<close> (absent), spec 4.1:
  it parses a buffer that holds a complete frame, and fails with a FormatError when the
  buffer is shorter than 8 bytes or shorter than 8 plus the declared length. It is what
  the constructor calls \<^verbatim>\<open>TLVPacket(buffer)\<close> of the client do.
\<close>

definition decode :: "bytes \<Rightarrow> exn + TLVPacket" where
  "decode buffer =
     (if length buffer < 8 then Inl FormatError
      else
        let declared = unat (be32_value (take 4 (drop 4 buffer))) in
        if length buffer < 8 + declared then Inl FormatError
        else Inr \<lparr>ptype = be32_value (take 4 buffer),
                  payload = take declared (drop 8 buffer)\<rparr>)"

text \<open>
  Modelled from the spec: the attribute \<^verbatim>\<open>packet.buffer\<close> of \<^verbatim>\<open>packet.py\<close>
  (absent), the serialized wire form of the packet (spec 3, 4.2 and 4.3:
  "serializes the packet", "the packet's serialized bytes").
\<close>

definition buffer_of :: "TLVPacket \<Rightarrow> bytes" where
  "buffer_of packet = encode (ptype packet) (payload packet)"

section \<open>The socket under the client\<close>

text \<open>
  The socket is Python's \<^verbatim>\<open>socket.socket\<close>; the client only calls \<^verbatim>\<open>setblocking\<close>,
  \<^verbatim>\<open>recv\<close>, \<^verbatim>\<open>send\<close> and \<^verbatim>\<open>close\<close> on it. What the peer and the kernel do is
  written into the socket's state: \<open>rx\<close> lists what successive \<^verbatim>\<open>recv\<close> calls will
  find (a chunk of bytes delivered by the network, or a pending error), \<open>tx\<close> gives the
  outcome of the i-th \<^verbatim>\<open>send\<close> call (room for so many bytes, or an error), \<open>wire\<close>
  collects the bytes that \<^verbatim>\<open>send\<close> has accepted.
\<close>

datatype rx_event = Chunk bytes | RxError errno

datatype tx_event = Room nat | TxError errno

record sock =
  rx :: "rx_event list"
  tx :: "nat \<Rightarrow> tx_event"
  tx_calls :: nat
  wire :: bytes
  blocking :: bool
  closed :: bool

text \<open>\<^verbatim>\<open>socket.setblocking(flag)\<close>; on a closed socket it raises \<^verbatim>\<open>EBADF\<close>.\<close>

definition sock_setblocking :: "bool \<Rightarrow> sock \<Rightarrow> unit outcome \<times> sock" where
  "sock_setblocking flag s =
     (if closed s then (Raises (socket_error EBADF), s)
      else (Returns (), s\<lparr>blocking := flag\<rparr>))"

text \<open>
  \<^verbatim>\<open>socket.recv(bufsize)\<close>: at most \<open>bufsize\<close> bytes of the chunk at the head of
  \<open>rx\<close>, the remainder of the chunk staying at the head. With nothing pending, a
  blocking socket blocks and a non-blocking one raises \<^verbatim>\<open>EAGAIN\<close>.
\<close>

definition sock_recv :: "nat \<Rightarrow> sock \<Rightarrow> bytes outcome \<times> sock" where
  "sock_recv bufsize s =
     (if closed s then (Raises (socket_error EBADF), s)
      else case rx s of
        [] \<Rightarrow> if blocking s then (Blocks, s) else (Raises (socket_error EAGAIN), s)
      | RxError e # evs \<Rightarrow> (Raises (socket_error e), s\<lparr>rx := evs\<rparr>)
      | Chunk c # evs \<Rightarrow>
          if length c \<le> bufsize then (Returns c, s\<lparr>rx := evs\<rparr>)
          else (Returns (take bufsize c), s\<lparr>rx := Chunk (drop bufsize c) # evs\<rparr>))"

text \<open>
  \<^verbatim>\<open>socket.send(data)\<close>: the number of bytes accepted, which may be fewer than
  offered, or an error.
\<close>

definition sock_send :: "bytes \<Rightarrow> sock \<Rightarrow> nat outcome \<times> sock" where
  "sock_send data s =
     (if closed s then (Raises (socket_error EBADF), s)
      else case tx s (tx_calls s) of
        TxError e \<Rightarrow> (Raises (socket_error e), s\<lparr>tx_calls := Suc (tx_calls s)\<rparr>)
      | Room n \<Rightarrow>
          (Returns (min n (length data)),
           s\<lparr>tx_calls := Suc (tx_calls s), wire := wire s @ take n data\<rparr>))"

text \<open>
  \<^verbatim>\<open>socket.close()\<close>: Python closes the descriptor once; closing a closed socket
  again does nothing and raises nothing.
\<close>

definition sock_close :: "sock \<Rightarrow> unit outcome \<times> sock" where
  "sock_close s = (Returns (), s\<lparr>closed := True\<rparr>)"

section \<open>TLVClient\<close>

text \<open>
  \<^verbatim>\<open>self.client\<close> is the socket, or \<^verbatim>\<open>None\<close> for a client that was never connected.
\<close>

record TLVClient =
  client :: "sock option"

definition not_connected :: exn where
  "not_connected = RuntimeError ''Socket is not connected!''"

text \<open>\<^verbatim>\<open>TLVClient.close\<close>: \<^verbatim>\<open>if self.client: self.client.close()\<close>.\<close>

definition TLVClient_close :: "TLVClient \<Rightarrow> unit outcome \<times> TLVClient" where
  "TLVClient_close self =
     (case client self of
        None \<Rightarrow> (Returns (), self)
      | Some s \<Rightarrow> (case sock_close s of (r, s') \<Rightarrow> (r, self\<lparr>client := Some s'\<rparr>)))"

text \<open>\<^verbatim>\<open>TLVClient.read_raw\<close>: one \<^verbatim>\<open>recv\<close>, no loop.\<close>

definition read_raw :: "nat \<Rightarrow> TLVClient \<Rightarrow> bytes outcome \<times> TLVClient" where
  "read_raw bufsize self =
     (case client self of
        None \<Rightarrow> (Raises not_connected, self)
      | Some s \<Rightarrow> (case sock_recv bufsize s of (r, s') \<Rightarrow> (r, self\<lparr>client := Some s'\<rparr>)))"

text \<open>
  \<^verbatim>\<open>self.client.setblocking(flag)\<close> and \<^verbatim>\<open>self.client.send(data)\<close>; on \<^verbatim>\<open>None\<close>
  the attribute lookup raises \<^verbatim>\<open>AttributeError\<close> (the callers test
  \<^verbatim>\<open>self.client\<close> first).
\<close>

definition setblocking :: "bool \<Rightarrow> TLVClient \<Rightarrow> unit outcome \<times> TLVClient" where
  "setblocking flag self =
     (case client self of
        None \<Rightarrow> (Raises AttributeError, self)
      | Some s \<Rightarrow>
          (case sock_setblocking flag s of (r, s') \<Rightarrow> (r, self\<lparr>client := Some s'\<rparr>)))"

definition client_send :: "bytes \<Rightarrow> TLVClient \<Rightarrow> nat outcome \<times> TLVClient" where
  "client_send data self =
     (case client self of
        None \<Rightarrow> (Raises AttributeError, self)
      | Some s \<Rightarrow> (case sock_send data s of (r, s') \<Rightarrow> (r, self\<lparr>client := Some s'\<rparr>)))"

text \<open>
  The measure of the payload loop: what is still pending on the socket. Every \<^verbatim>\<open>recv\<close>
  that returns uses up a chunk or a part of one.
\<close>

fun event_size :: "rx_event \<Rightarrow> nat" where
  "event_size (Chunk c) = Suc (length c)"
| "event_size (RxError e) = 1"

definition pending :: "TLVClient \<Rightarrow> nat" where
  "pending self =
     (case client self of None \<Rightarrow> 0 | Some s \<Rightarrow> sum_list (map event_size (rx s)))"

text \<open>
  The payload loop of \<^verbatim>\<open>TLVClient.read\<close>:
  \<^verbatim>\<open>while length > 0: chunk = self.read_raw(length); value += chunk; length -= len(chunk)\<close>.
\<close>

function read_value :: "nat \<Rightarrow> bytes \<Rightarrow> TLVClient \<Rightarrow> bytes outcome \<times> TLVClient" where
  "read_value length' value self =
     (if length' > 0 then
        (case read_raw length' self of
           (Returns chunk, self') \<Rightarrow>
             read_value (length' - length chunk) (value @ chunk) self'
         | (Raises e, self') \<Rightarrow> (Raises e, self')
         | (Blocks, self') \<Rightarrow> (Blocks, self'))
      else (Returns value, self))"
  by pat_completeness auto
termination
  by (relation "measure (\<lambda>(n, v, self). pending self)")
    (auto simp: read_raw_def sock_recv_def pending_def
      split: option.splits if_splits list.splits rx_event.splits)

text \<open>
  \<^verbatim>\<open>TLVClient.read\<close> from \<^verbatim>\<open>self.client.setblocking(True)\<close> on: the length field
  in one \<^verbatim>\<open>read_raw(4)\<close>, \<^verbatim>\<open>struct.unpack\<close>, the payload loop, and the packet
  built from \<^verbatim>\<open>type + length + value\<close>. \<open>buffer\<close> is what the first
  \<^verbatim>\<open>read_raw(4)\<close> returned.
\<close>

definition read_frame :: "bytes \<Rightarrow> TLVClient \<Rightarrow> TLVPacket option outcome \<times> TLVClient" where
  "read_frame buffer self =
     (case setblocking True self of
        (Raises e, self1) \<Rightarrow> (Raises e, self1)
      | (Blocks, self1) \<Rightarrow> (Blocks, self1)
      | (Returns _, self1) \<Rightarrow>
          (case read_raw 4 self1 of
             (Raises e, self2) \<Rightarrow> (Raises e, self2)
           | (Blocks, self2) \<Rightarrow> (Blocks, self2)
           | (Returns length', self2) \<Rightarrow>
               (case unpack_be32 length' of
                  Inl e \<Rightarrow> (Raises e, self2)
                | Inr n \<Rightarrow>
                    (case read_value (unat n) [] self2 of
                       (Raises e, self3) \<Rightarrow> (Raises e, self3)
                     | (Blocks, self3) \<Rightarrow> (Blocks, self3)
                     | (Returns value, self3) \<Rightarrow>
                         (case decode ((buffer @ length') @ value) of
                            Inl e \<Rightarrow> (Raises e, self3)
                          | Inr packet \<Rightarrow> (Returns (Some packet), self3))))))"

text \<open>
  \<^verbatim>\<open>TLVClient.read(block)\<close>. The first \<^verbatim>\<open>read_raw(4)\<close> runs under
  \<^verbatim>\<open>except socket.error\<close>: on \<^verbatim>\<open>EAGAIN\<close> or \<^verbatim>\<open>EWOULDBLOCK\<close> the call
  returns \<^verbatim>\<open>None\<close>; any other \<^verbatim>\<open>socket.error\<close> leaves the handler without a
  \<^verbatim>\<open>return\<close> or \<^verbatim>\<open>raise\<close>, so that the call goes on with an empty buffer.
\<close>

definition read :: "bool \<Rightarrow> TLVClient \<Rightarrow> TLVPacket option outcome \<times> TLVClient" where
  "read block self =
     (if client self = None then (Raises not_connected, self)
      else
        case setblocking block self of
          (Raises e, self1) \<Rightarrow> (Raises e, self1)
        | (Blocks, self1) \<Rightarrow> (Blocks, self1)
        | (Returns _, self1) \<Rightarrow>
            (case read_raw 4 self1 of
               (Returns buffer, self2) \<Rightarrow> read_frame buffer self2
             | (Blocks, self2) \<Rightarrow> (Blocks, self2)
             | (Raises (socket_error e), self2) \<Rightarrow>
                 if e = EAGAIN \<or> e = EWOULDBLOCK then (Returns None, self2)
                 else read_frame [] self2
             | (Raises e, self2) \<Rightarrow> (Raises e, self2)))"

text \<open>
  The loop of \<^verbatim>\<open>TLVClient.send_raw\<close>, \<^verbatim>\<open>while data: ...\<close>, with fuel: the loop
  has no bound of its own, and \<open>None\<close> says that it is still running when the fuel is
  used up. The handler \<^verbatim>\<open>except socket.error\<close> has the one statement
  \<^verbatim>\<open>if e.errno == errno.EAGAIN or e.errno == errno.EWOULDBLOCK: continue\<close>; with any
  other error number the handler ends and the loop goes round as well.
\<close>

fun send_raw_loop :: "nat \<Rightarrow> bytes \<Rightarrow> TLVClient \<Rightarrow> unit outcome option \<times> TLVClient" where
  "send_raw_loop 0 data self =
     (if data \<noteq> [] then (None, self) else (Some (Returns ()), self))"
| "send_raw_loop (Suc fuel) data self =
     (if data \<noteq> [] then
        (case client_send data self of
           (Returns sent, self') \<Rightarrow> send_raw_loop fuel (drop sent data) self'
         | (Blocks, self') \<Rightarrow> (Some Blocks, self')
         | (Raises (socket_error e), self') \<Rightarrow>
             if e = EAGAIN \<or> e = EWOULDBLOCK then send_raw_loop fuel data self'
             else send_raw_loop fuel data self'
         | (Raises e, self') \<Rightarrow> (Some (Raises e), self'))
      else (Some (Returns ()), self))"

text \<open>\<^verbatim>\<open>TLVClient.send_raw\<close> and \<^verbatim>\<open>TLVClient.send\<close>.\<close>

definition send_raw :: "nat \<Rightarrow> bytes \<Rightarrow> TLVClient \<Rightarrow> unit outcome option \<times> TLVClient" where
  "send_raw fuel data self =
     (if client self = None then (Some (Raises not_connected), self)
      else send_raw_loop fuel data self)"

definition send :: "nat \<Rightarrow> TLVPacket \<Rightarrow> TLVClient \<Rightarrow> unit outcome option \<times> TLVClient" where
  "send fuel packet self = send_raw fuel (buffer_of packet) self"

text \<open>Whether the client's socket is in blocking mode.\<close>

definition is_blocking :: "TLVClient \<Rightarrow> bool" where
  "is_blocking self = (case client self of None \<Rightarrow> False | Some s \<Rightarrow> blocking s)"

text \<open>The network delivers further events to the client's socket.\<close>

definition arrive :: "rx_event list \<Rightarrow> TLVClient \<Rightarrow> TLVClient" where
  "arrive evs self =
     (case client self of
        None \<Rightarrow> self
      | Some s \<Rightarrow> self\<lparr>client := Some (s\<lparr>rx := rx s @ evs\<rparr>)\<rparr>)"

section \<open>The HTTP request handed to a handler\<close>

text \<open>
  A handler receives the request object of \<^verbatim>\<open>http.server\<close>. The model keeps what the
  handlers touch: the path, the outcome of \<^verbatim>\<open>int(request.headers['Content-Length'])\<close>
  (the number, \<^verbatim>\<open>TypeError\<close> for a missing header, \<^verbatim>\<open>ValueError\<close> for a value that
  is no numeral), the bytes that \<^verbatim>\<open>rfile\<close> still holds, the status codes and the body
  bytes written to the response so far, and \<open>faults\<close>: for each coming write to the
  client, whether it succeeds (\<open>None\<close>) or raises.
\<close>

record request =
  req_path :: string
  content_length :: "exn + int"
  rfile :: bytes
  statuses :: "nat list"
  wfile :: bytes
  faults :: "exn option list"

definition next_fault :: "request \<Rightarrow> exn option" where
  "next_fault request = (case faults request of [] \<Rightarrow> None | f # fs \<Rightarrow> f)"

definition after_write :: "request \<Rightarrow> request" where
  "after_write request = request\<lparr>faults := tl (faults request)\<rparr>"

text \<open>
  \<^verbatim>\<open>PrimitiveHandler.send_status\<close>: \<^verbatim>\<open>send_response\<close>, \<^verbatim>\<open>send_header\<close> and
  \<^verbatim>\<open>end_headers\<close>, which writes the buffered status line and headers to the client.
\<close>

definition send_status :: "nat \<Rightarrow> request \<Rightarrow> unit outcome \<times> request" where
  "send_status code request =
     (case next_fault request of
        Some e \<Rightarrow> (Raises e, after_write request)
      | None \<Rightarrow> (Returns (), (after_write request)\<lparr>statuses := statuses request @ [code]\<rparr>))"

text \<open>\<^verbatim>\<open>request.wfile.write(data)\<close>.\<close>

definition wfile_write :: "bytes \<Rightarrow> request \<Rightarrow> unit outcome \<times> request" where
  "wfile_write data request =
     (case next_fault request of
        Some e \<Rightarrow> (Raises e, after_write request)
      | None \<Rightarrow> (Returns (), (after_write request)\<lparr>wfile := wfile request @ data\<rparr>))"

text \<open>
  \<^verbatim>\<open>request.rfile.read(n)\<close> on the buffered reader: \<open>n\<close> bytes, or fewer at the end
  of the stream; everything for \<open>-1\<close>; \<^verbatim>\<open>ValueError\<close> for another negative number.
\<close>

definition rfile_read :: "int \<Rightarrow> request \<Rightarrow> bytes outcome \<times> request" where
  "rfile_read n request =
     (if n = - 1 then (Returns (rfile request), request\<lparr>rfile := []\<rparr>)
      else if n < 0 then (Raises ValueError, request)
      else (Returns (take (nat n) (rfile request)),
            request\<lparr>rfile := drop (nat n) (rfile request)\<rparr>))"

definition new_request :: "string \<Rightarrow> request" where
  "new_request p =
     \<lparr>req_path = p, content_length = Inl TypeError, rfile = [], statuses = [], wfile = [],
      faults = []\<rparr>"

section \<open>TLVServerHTTP and the listener's dispatch\<close>

text \<open>
  The two closures \<^verbatim>\<open>get\<close> and \<^verbatim>\<open>post\<close> that \<^verbatim>\<open>TLVServerHTTP.__init__\<close> creates
  and registers; \<^verbatim>\<open>self.get\<close> and \<^verbatim>\<open>self.post\<close> are the same two objects.
\<close>

datatype handler = Handler_get | Handler_post

text \<open>
  The transport together with the method table of the listener it holds
  (\<^verbatim>\<open>self.server.methods\<close>, a dict from path to a dict from verb to handler).
  \<open>callback\<close> says whether a callback is registered, \<open>received\<close> lists the packets
  the callback has been called with.
\<close>

record TLVServerHTTP =
  methods :: "string \<rightharpoonup> (string \<times> handler) list"
  urlpath :: string
  egress :: bytes
  callback :: bool
  received :: "TLVPacket list"

text \<open>The dict \<^verbatim>\<open>{'GET': get, 'POST': post}\<close>.\<close>

definition handlers :: "(string \<times> handler) list" where
  "handlers = [(''GET'', Handler_get), (''POST'', Handler_post)]"

text \<open>\<^verbatim>\<open>TLVServerHTTP.__init__\<close>.\<close>

definition TLVServerHTTP_init ::
  "(string \<rightharpoonup> (string \<times> handler) list) \<Rightarrow> bool \<Rightarrow> string \<Rightarrow> TLVServerHTTP" where
  "TLVServerHTTP_init server_methods cb path =
     \<lparr>methods = server_methods(path \<mapsto> handlers), urlpath = path, egress = [],
      callback = cb, received = []\<rparr>"

text \<open>The closure \<^verbatim>\<open>get\<close>.\<close>

definition TLVServerHTTP_get ::
  "request \<Rightarrow> TLVServerHTTP \<Rightarrow> unit outcome \<times> request \<times> TLVServerHTTP" where
  "TLVServerHTTP_get request self =
     (if req_path request \<noteq> urlpath self then (Returns (), request, self)
      else
        case send_status 200 request of
          (Returns _, request1) \<Rightarrow>
            (case wfile_write (egress self) request1 of
               (Returns _, request2) \<Rightarrow> (Returns (), request2, self\<lparr>egress := []\<rparr>)
             | (failure, request2) \<Rightarrow> (failure, request2, self))
        | (failure, request1) \<Rightarrow> (failure, request1, self))"

text \<open>
  The closure \<^verbatim>\<open>post\<close>. The write of the egress buffer stands under
  \<^verbatim>\<open>try: ... except Exception: pass\<close>, so only its effect on the request is kept. The
  packet is built, \<^verbatim>\<open>TLVPacket(data)\<close>, only when a callback is registered.
\<close>

definition TLVServerHTTP_post ::
  "request \<Rightarrow> TLVServerHTTP \<Rightarrow> unit outcome \<times> request \<times> TLVServerHTTP" where
  "TLVServerHTTP_post request self =
     (if req_path request \<noteq> urlpath self then (Returns (), request, self)
      else
        case content_length request of
          Inl e \<Rightarrow> (Raises e, request, self)
        | Inr length' \<Rightarrow>
            (case rfile_read length' request of
               (Raises e, request1) \<Rightarrow> (Raises e, request1, self)
             | (Blocks, request1) \<Rightarrow> (Blocks, request1, self)
             | (Returns data, request1) \<Rightarrow>
                 (case send_status 200 request1 of
                    (Returns _, request2) \<Rightarrow>
                      (let request3 = snd (wfile_write (egress self) request2) in
                       if callback self then
                         (case decode data of
                            Inl e \<Rightarrow> (Raises e, request3, self)
                          | Inr packet \<Rightarrow>
                              (Returns (), request3,
                               self\<lparr>received := received self @ [packet]\<rparr>))
                       else (Returns (), request3, self))
                  | (failure, request2) \<Rightarrow> (failure, request2, self))))"

text \<open>
  \<^verbatim>\<open>TLVServerHTTP.set_urlpath\<close>: \<^verbatim>\<open>methods.pop(self.urlpath)\<close> raises
  \<^verbatim>\<open>KeyError\<close> when the path is not registered; the new path is
  \<^verbatim>\<open>'/' + urlpath\<close>.
\<close>

definition set_urlpath :: "string \<Rightarrow> TLVServerHTTP \<Rightarrow> unit outcome \<times> TLVServerHTTP" where
  "set_urlpath path self =
     (case methods self (urlpath self) of
        None \<Rightarrow> (Raises (KeyError (urlpath self)), self)
      | Some _ \<Rightarrow>
          (let self1 = self\<lparr>methods := (methods self)(urlpath self := None)\<rparr>;
               self2 = self1\<lparr>urlpath := ''/'' @ path\<rparr>
           in (Returns (), self2\<lparr>methods := (methods self2)(urlpath self2 \<mapsto> handlers)\<rparr>)))"

text \<open>\<^verbatim>\<open>TLVServerHTTP.send\<close>: \<^verbatim>\<open>self.egress += packet.buffer\<close>.\<close>

definition TLVServerHTTP_send :: "TLVPacket \<Rightarrow> TLVServerHTTP \<Rightarrow> TLVServerHTTP" where
  "TLVServerHTTP_send packet self = self\<lparr>egress := egress self @ buffer_of packet\<rparr>"

text \<open>\<^verbatim>\<open>TLVServerHTTP.close\<close>.\<close>

definition TLVServerHTTP_close :: "TLVServerHTTP \<Rightarrow> unit outcome \<times> TLVServerHTTP" where
  "TLVServerHTTP_close self =
     (case methods self (urlpath self) of
        None \<Rightarrow> (Raises (KeyError (urlpath self)), self)
      | Some _ \<Rightarrow> (Returns (), self\<lparr>methods := (methods self)(urlpath self := None)\<rparr>))"

text \<open>Calling a registered handler.\<close>

fun call_handler ::
  "handler \<Rightarrow> request \<Rightarrow> TLVServerHTTP \<Rightarrow> unit outcome \<times> request \<times> TLVServerHTTP" where
  "call_handler Handler_get request self = TLVServerHTTP_get request self"
| "call_handler Handler_post request self = TLVServerHTTP_post request self"

text \<open>
  The closures \<^verbatim>\<open>get\<close> and \<^verbatim>\<open>post\<close> of \<^verbatim>\<open>HTTPListener.__init__\<close>, installed as
  \<^verbatim>\<open>do_GET\<close> and \<^verbatim>\<open>do_POST\<close>; they differ in the verb they look up only.
  \<^verbatim>\<open>if not method\<close> holds for a missing path and for an empty dict.
\<close>

definition dispatch ::
  "string \<Rightarrow> request \<Rightarrow> TLVServerHTTP \<Rightarrow> unit outcome \<times> request \<times> TLVServerHTTP" where
  "dispatch verb request self =
     (case methods self (req_path request) of
        None \<Rightarrow> (case send_status 404 request of (r, request1) \<Rightarrow> (r, request1, self))
      | Some method \<Rightarrow>
          if method = [] then
            (case send_status 404 request of (r, request1) \<Rightarrow> (r, request1, self))
          else
            (case map_of method verb of
               None \<Rightarrow> (Returns (), request, self)
             | Some cb \<Rightarrow> call_handler cb request self))"

definition HTTPListener_get ::
  "request \<Rightarrow> TLVServerHTTP \<Rightarrow> unit outcome \<times> request \<times> TLVServerHTTP" where
  "HTTPListener_get request self = dispatch ''GET'' request self"

definition HTTPListener_post ::
  "request \<Rightarrow> TLVServerHTTP \<Rightarrow> unit outcome \<times> request \<times> TLVServerHTTP" where
  "HTTPListener_post request self = dispatch ''POST'' request self"

section \<open>FTPClient\<close>

text \<open>
  \<^verbatim>\<open>self.client.retrbinary(cmd, callback)\<close> belongs to \<^verbatim>\<open>ftplib\<close>: for a command
  it calls the callback with the blocks of the file, in order, and then returns or
  raises. The argument \<open>retrbinary\<close> gives, for each command, these blocks and the
  exception raised, if any. The body of the \<^verbatim>\<open>try\<close> in \<^verbatim>\<open>FTPClient.get_file\<close>:
\<close>

definition retrieve :: "(string \<Rightarrow> bytes list \<times> exn option) \<Rightarrow> string \<Rightarrow> bytes outcome" where
  "retrieve retrbinary remote_file =
     (case retrbinary (''RETR '' @ remote_file) of
        (blocks, Some e) \<Rightarrow> Raises e
      | (blocks, None) \<Rightarrow> Returns (foldl (\<lambda>fp_content block. fp_content @ block) [] blocks))"

text \<open>\<^verbatim>\<open>FTPClient.get_file\<close>: the body under \<^verbatim>\<open>except Exception: return b""\<close>.\<close>

definition get_file :: "(string \<Rightarrow> bytes list \<times> exn option) \<Rightarrow> string \<Rightarrow> bytes outcome" where
  "get_file retrbinary remote_file =
     (case retrieve retrbinary remote_file of
        Raises e \<Rightarrow> Returns []
      | result \<Rightarrow> result)"

section \<open>Inputs for the concrete runs\<close>

text \<open>The payloads \<^verbatim>\<open>b"PING"\<close> and \<^verbatim>\<open>b"ACK"\<close>.\<close>

definition ping :: bytes where
  "ping = [0x50, 0x49, 0x4E, 0x47]"

definition ack :: bytes where
  "ack = [0x41, 0x43, 0x4B]"

text \<open>
  A connected socket in blocking mode with nothing to read, whose every \<^verbatim>\<open>send\<close>
  has room for 65536 bytes; the same socket with a first \<^verbatim>\<open>send\<close> that fails with
  \<^verbatim>\<open>EPIPE\<close>; and one whose every \<^verbatim>\<open>send\<close> fails with \<^verbatim>\<open>EPIPE\<close>.
\<close>

definition idle_sock :: sock where
  "idle_sock =
     \<lparr>rx = [], tx = (\<lambda>_. Room 65536), tx_calls = 0, wire = [], blocking = True,
      closed = False\<rparr>"

definition flaky_sock :: sock where
  "flaky_sock = idle_sock\<lparr>tx := (\<lambda>i. if i = 0 then TxError EPIPE else Room 65536)\<rparr>"

definition broken_sock :: sock where
  "broken_sock = idle_sock\<lparr>tx := (\<lambda>_. TxError EPIPE)\<rparr>"

text \<open>
  A POST request to \<^verbatim>\<open>/\<close> whose body is the packet of type 3 with payload
  \<^verbatim>\<open>b"ACK"\<close>, 11 bytes; the status line can be written, the write that follows it
  fails with \<^verbatim>\<open>EPIPE\<close>.
\<close>

definition ack_post :: request where
  "ack_post =
     \<lparr>req_path = ''/'', content_length = Inr 11, rfile = encode 3 ack, statuses = [],
      wfile = [], faults = [None, Some (socket_error EPIPE)]\<rparr>"

section \<open>Facts about the codec\<close>

lemma length_pack_be32: "length (pack_be32 w) = 4"
  by (simp add: pack_be32_def)

lemma be32_value_pack_be32: "be32_value (pack_be32 w) = w"
  unfolding pack_be32_def
  apply simp
  apply (rule bit_word_eqI)
  subgoal for n
    apply (cases "n < 8"; cases "n < 16"; cases "n < 24")
           apply (auto simp add: bit_simps not_less)
    done
  done

lemma unpack_be32_pack_be32: "unpack_be32 (pack_be32 w) = Inr w"
  by (simp add: unpack_be32_def length_pack_be32 be32_value_pack_be32)

lemma length_encode: "length (encode t v) = 8 + length v"
  by (simp add: encode_def length_pack_be32)

lemma take4_encode: "take 4 (encode t v) = pack_be32 t"
  by (simp add: encode_def length_pack_be32)

lemma length_field_encode:
  "take 4 (drop 4 (encode t v)) = pack_be32 (word_of_nat (length v))"
  by (simp add: encode_def length_pack_be32)

lemma drop8_encode: "drop 8 (encode t v) = v"
  by (simp add: encode_def length_pack_be32)

lemma unat_length_word:
  "length (v :: bytes) < 2 ^ 32 \<Longrightarrow> unat (word_of_nat (length v) :: u32) = length v"
  by (simp add: unat_of_nat)

lemma decode_encode:
  assumes "length v < 2 ^ 32"
  shows "decode (encode t v) = Inr \<lparr>ptype = t, payload = v\<rparr>"
  using assms
  by (simp add: decode_def length_encode take4_encode length_field_encode drop8_encode
      be32_value_pack_be32 unat_length_word Let_def)

lemma unat_u32_less: "unat (w :: u32) < 2 ^ 32"
  using unsigned_less [of w] by simp

section \<open>Round trip of the codec\<close>

text \<open>
  C1, as the claim states it, fails: the length field has four bytes, so for a payload
  of \<open>2 ^ 32\<close> bytes the field cannot equal the length of the payload.
\<close>

theorem C1_length_field_counterexample:
  "unat (be32_value (take 4 (drop 4 (encode 0 (replicate (2 ^ 32) 0)))))
     \<noteq> length (replicate (2 ^ 32) (0 :: byte))"
proof -
  have "unat (be32_value (take 4 (drop 4 (encode 0 (replicate (2 ^ 32) 0))))) < 2 ^ 32"
    by (rule unat_u32_less)
  moreover have "length (replicate (2 ^ 32) (0 :: byte)) = 2 ^ 32"
    by (rule length_replicate)
  ultimately show ?thesis
    by linarith
qed

text \<open>
  C1 (amended): for every 32-bit type and every payload of fewer than \<open>2 ^ 32\<close> bytes
  (the empty one included), decoding the encoding gives back the packet with that type
  and payload; the wire form is the type in four big-endian bytes, then the length of the
  payload in four big-endian bytes, then the payload, \<open>8 + length\<close> bytes in all.
\<close>

theorem C1_round_trip:
  assumes "length v < 2 ^ 32"
  shows "decode (encode t v) = Inr \<lparr>ptype = t, payload = v\<rparr>
       \<and> take 4 (encode t v) = pack_be32 t
       \<and> be32_value (take 4 (encode t v)) = t
       \<and> length (take 4 (drop 4 (encode t v))) = 4
       \<and> unat (be32_value (take 4 (drop 4 (encode t v)))) = length v
       \<and> drop 8 (encode t v) = v
       \<and> length (encode t v) = 8 + length v"
  using assms
  by (simp add: decode_encode take4_encode length_field_encode drop8_encode length_encode
      be32_value_pack_be32 unat_length_word length_pack_be32)

theorem C1_round_trip_witness:
  "length ([] :: bytes) < 2 ^ 32
   \<and> decode (encode 7 []) = Inr \<lparr>ptype = 7, payload = []\<rparr>
   \<and> encode 7 [] = [0, 0, 0, 7, 0, 0, 0, 0]
   \<and> length (encode 7 []) = 8"
proof -
  have h: "length ([] :: bytes) < 2 ^ 32" by simp
  have e: "encode 7 [] = [0, 0, 0, 7, 0, 0, 0, 0]"
    by (simp add: encode_def pack_be32_def)
  show ?thesis
    using h e C1_round_trip [OF h, of 7] by simp
qed

section \<open>Reading a frame\<close>

text \<open>
  The payload loop puts the chunks together: when the payload arrives in any number of
  non-empty chunks, the loop returns their concatenation and uses up exactly these
  chunks.
\<close>

lemma read_value_chunks:
  assumes "client self = Some s" and "\<not> closed s"
    and "rx s = map Chunk cs @ rest" and "\<forall>c \<in> set cs. c \<noteq> []"
  shows "read_value (length (concat cs)) acc self
           = (Returns (acc @ concat cs), self\<lparr>client := Some (s\<lparr>rx := rest\<rparr>)\<rparr>)"
  using assms
proof (induction cs arbitrary: acc self s)
  case Nil
  then show ?case by simp
next
  case (Cons c cs)
  let ?s1 = "s\<lparr>rx := map Chunk cs @ rest\<rparr>"
  let ?self1 = "self\<lparr>client := Some ?s1\<rparr>"
  from Cons.prems have c: "c \<noteq> []" by simp
  have rr: "read_raw (length (concat (c # cs))) self = (Returns c, ?self1)"
    using Cons.prems by (simp add: read_raw_def sock_recv_def)
  have ih: "read_value (length (concat cs)) (acc @ c) ?self1
              = (Returns ((acc @ c) @ concat cs),
                 ?self1\<lparr>client := Some (?s1\<lparr>rx := rest\<rparr>)\<rparr>)"
    by (rule Cons.IH) (use Cons.prems in simp_all)
  have pos: "0 < length (concat (c # cs))" using c by simp
  show ?case
    apply (subst read_value.simps)
    apply (simp only: pos if_True rr prod.case outcome.case)
    using ih apply simp
    done
qed

text \<open>
  A frame whose type field and length field each arrive in one piece is read whole,
  however the payload is cut into chunks.
\<close>

lemma read_fragmented_payload:
  assumes "client self = Some s" and "\<not> closed s" and "length (concat cs) < 2 ^ 32"
    and "rx s = Chunk (pack_be32 t) # Chunk (pack_be32 (word_of_nat (length (concat cs))))
                  # map Chunk cs @ rest"
    and "\<forall>c \<in> set cs. c \<noteq> []"
  shows "read block self
           = (Returns (Some \<lparr>ptype = t, payload = concat cs\<rparr>),
              self\<lparr>client := Some (s\<lparr>rx := rest, blocking := True\<rparr>)\<rparr>)"
proof -
  let ?v = "concat cs"
  let ?len = "pack_be32 (word_of_nat (length ?v))"
  let ?s1 = "s\<lparr>blocking := block\<rparr>"
  let ?self1 = "self\<lparr>client := Some ?s1\<rparr>"
  have sb: "setblocking block self = (Returns (), ?self1)"
    using assms by (simp add: setblocking_def sock_setblocking_def)
  let ?s2 = "?s1\<lparr>rx := Chunk ?len # map Chunk cs @ rest\<rparr>"
  let ?self2 = "self\<lparr>client := Some ?s2\<rparr>"
  have r1: "read_raw 4 ?self1 = (Returns (pack_be32 t), ?self2)"
    using assms by (simp add: read_raw_def sock_recv_def length_pack_be32)
  let ?s3 = "?s2\<lparr>blocking := True\<rparr>"
  let ?self3 = "self\<lparr>client := Some ?s3\<rparr>"
  have sb2: "setblocking True ?self2 = (Returns (), ?self3)"
    using assms by (simp add: setblocking_def sock_setblocking_def)
  let ?s4 = "?s3\<lparr>rx := map Chunk cs @ rest\<rparr>"
  let ?self4 = "self\<lparr>client := Some ?s4\<rparr>"
  have r2: "read_raw 4 ?self3 = (Returns ?len, ?self4)"
    using assms by (simp add: read_raw_def sock_recv_def length_pack_be32)
  let ?s5 = "?s4\<lparr>rx := rest\<rparr>"
  let ?self5 = "?self4\<lparr>client := Some ?s5\<rparr>"
  have rv: "read_value (length ?v) [] ?self4 = (Returns ([] @ ?v), ?self5)"
    by (rule read_value_chunks) (use assms in auto)
  have enc: "(pack_be32 t @ ?len) @ [] @ ?v = encode t ?v"
    by (simp add: encode_def)
  have rf: "read_frame (pack_be32 t) ?self2
              = (Returns (Some \<lparr>ptype = t, payload = ?v\<rparr>), ?self5)"
    unfolding read_frame_def
    by (simp only: sb2 prod.case outcome.case r2 unpack_be32_pack_be32 sum.case
        unat_length_word [OF assms(3)] rv enc decode_encode [OF assms(3)])
  have ne: "client self \<noteq> None" using assms by simp
  have "read block self = (Returns (Some \<lparr>ptype = t, payload = ?v\<rparr>), ?self5)"
    unfolding read_def
    by (simp only: ne if_False sb prod.case outcome.case r1 rf)
  then show ?thesis by simp
qed

text \<open>A frame that arrives as one chunk is read whole.\<close>

lemma read_whole_frame:
  assumes "client self = Some s" and "\<not> closed s" and "length v < 2 ^ 32"
    and "rx s = Chunk (encode t v) # rest"
  shows "read block self
           = (Returns (Some \<lparr>ptype = t, payload = v\<rparr>),
              self\<lparr>client := Some (s\<lparr>rx := rest, blocking := True\<rparr>)\<rparr>)"
proof -
  let ?s1 = "s\<lparr>blocking := block\<rparr>"
  let ?self1 = "self\<lparr>client := Some ?s1\<rparr>"
  have sb: "setblocking block self = (Returns (), ?self1)"
    using assms by (simp add: setblocking_def sock_setblocking_def)
  let ?s2 = "?s1\<lparr>rx := Chunk (drop 4 (encode t v)) # rest\<rparr>"
  let ?self2 = "self\<lparr>client := Some ?s2\<rparr>"
  have r1: "read_raw 4 ?self1 = (Returns (pack_be32 t), ?self2)"
    using assms by (simp add: read_raw_def sock_recv_def length_encode take4_encode)
  let ?s3 = "?s2\<lparr>blocking := True\<rparr>"
  let ?self3 = "self\<lparr>client := Some ?s3\<rparr>"
  have sb2: "setblocking True ?self2 = (Returns (), ?self3)"
    using assms by (simp add: setblocking_def sock_setblocking_def)
  let ?len = "pack_be32 (word_of_nat (length v))"
  let ?s4 = "?s3\<lparr>rx := map Chunk (if v = [] then [] else [v]) @ rest\<rparr>"
  let ?self4 = "self\<lparr>client := Some ?s4\<rparr>"
  have d4: "drop 4 (encode t v) = ?len @ v"
    by (simp add: encode_def length_pack_be32)
  have r2: "read_raw 4 ?self3 = (Returns ?len, ?self4)"
    using assms by (simp add: read_raw_def sock_recv_def d4 length_pack_be32)
  let ?s5 = "?s4\<lparr>rx := rest\<rparr>"
  let ?self5 = "?self4\<lparr>client := Some ?s5\<rparr>"
  have rv: "read_value (length (concat (if v = [] then [] else [v]))) [] ?self4
              = (Returns ([] @ concat (if v = [] then [] else [v])), ?self5)"
    by (rule read_value_chunks) (use assms in auto)
  have rv': "read_value (length v) [] ?self4 = (Returns v, ?self5)"
    using rv by (cases "v = []") simp_all
  have enc: "(pack_be32 t @ ?len) @ v = encode t v"
    by (simp add: encode_def)
  have rf: "read_frame (pack_be32 t) ?self2
              = (Returns (Some \<lparr>ptype = t, payload = v\<rparr>), ?self5)"
    unfolding read_frame_def
    by (simp only: sb2 prod.case outcome.case r2 unpack_be32_pack_be32 sum.case
        unat_length_word [OF assms(3)] rv' enc decode_encode [OF assms(3)])
  have ne: "client self \<noteq> None" using assms by simp
  have "read block self = (Returns (Some \<lparr>ptype = t, payload = v\<rparr>), ?self5)"
    unfolding read_def
    by (simp only: ne if_False sb prod.case outcome.case r1 rf)
  then show ?thesis by simp
qed

text \<open>
  C2 does not hold of the code. The packet of type 1 with payload \<^verbatim>\<open>b"PING"\<close> is
  delivered one byte per \<^verbatim>\<open>recv\<close>; a blocking \<^verbatim>\<open>read\<close> takes one byte for the
  type and one byte for the length, and \<^verbatim>\<open>struct.unpack\<close> raises
  \<^verbatim>\<open>struct.error\<close> on the one-byte length: no packet is returned. Only the payload
  is read in a loop; each header field is read by a single \<^verbatim>\<open>recv\<close>.
\<close>

theorem read_one_byte_chunks_raises:
  "fst (read True
         \<lparr>client = Some (idle_sock\<lparr>rx := map (\<lambda>b. Chunk [b]) (encode 1 ping)\<rparr>)\<rparr>)
     = Raises struct_error"
  by (simp add: read_def read_frame_def setblocking_def sock_setblocking_def read_raw_def
      sock_recv_def idle_sock_def encode_def pack_be32_def ping_def unpack_be32_def)

section \<open>The non-blocking probe\<close>

lemma read_after_probe:
  assumes "client self = Some s" and "\<not> closed s"
  shows "read block (arrive evs (self\<lparr>client := Some (s\<lparr>blocking := b0\<rparr>)\<rparr>))
           = read block (arrive evs self)"
  using assms
  by (simp add: read_def arrive_def setblocking_def sock_setblocking_def)

text \<open>
  C4: on a connected, open socket with nothing available, \<^verbatim>\<open>read(block=False)\<close>
  returns \<^verbatim>\<open>None\<close> at once and changes nothing on the socket but its blocking
  mode: no byte is consumed. Whatever arrives afterwards, a following \<^verbatim>\<open>read\<close>
  behaves as if the probe had not been made; in particular a frame that arrives
  afterwards in one piece is returned intact.
\<close>

theorem read_probe_consumes_nothing:
  assumes "client self = Some s" and "\<not> closed s" and "rx s = []"
  shows "read False self = (Returns None, self\<lparr>client := Some (s\<lparr>blocking := False\<rparr>)\<rparr>)
       \<and> (\<forall>evs block. read block (arrive evs (snd (read False self)))
                         = read block (arrive evs self))
       \<and> (\<forall>t v block. length v < 2 ^ 32 \<longrightarrow>
             fst (read block (arrive [Chunk (encode t v)] (snd (read False self))))
               = Returns (Some \<lparr>ptype = t, payload = v\<rparr>))"
proof -
  have probe: "read False self
                 = (Returns None, self\<lparr>client := Some (s\<lparr>blocking := False\<rparr>)\<rparr>)"
    using assms
    by (simp add: read_def setblocking_def sock_setblocking_def read_raw_def sock_recv_def)
  have later: "read block (arrive evs (snd (read False self))) = read block (arrive evs self)"
    for evs block
    using assms(1,2) by (simp add: probe read_after_probe)
  have frame: "fst (read block (arrive [Chunk (encode t v)] (snd (read False self))))
                 = Returns (Some \<lparr>ptype = t, payload = v\<rparr>)"
    if "length v < 2 ^ 32" for t v block
  proof -
    let ?self = "arrive [Chunk (encode t v)] self"
    have "client ?self = Some (s\<lparr>rx := [Chunk (encode t v)]\<rparr>)"
      using assms by (simp add: arrive_def)
    then have "read block ?self
        = (Returns (Some \<lparr>ptype = t, payload = v\<rparr>),
           ?self\<lparr>client := Some ((s\<lparr>rx := [Chunk (encode t v)]\<rparr>)\<lparr>rx := [],
              blocking := True\<rparr>)\<rparr>)"
      by (rule read_whole_frame) (use assms that in simp_all)
    then show ?thesis by (simp add: later)
  qed
  from probe later frame show ?thesis by blast
qed

theorem read_probe_consumes_nothing_witness:
  "client \<lparr>client = Some idle_sock\<rparr> = Some idle_sock \<and> \<not> closed idle_sock
   \<and> rx idle_sock = []
   \<and> read False \<lparr>client = Some idle_sock\<rparr>
        = (Returns None, \<lparr>client = Some (idle_sock\<lparr>blocking := False\<rparr>)\<rparr>)
   \<and> length ping < 2 ^ 32
   \<and> fst (read False (arrive [Chunk (encode 1 ping)]
             (snd (read False \<lparr>client = Some idle_sock\<rparr>))))
        = Returns (Some \<lparr>ptype = 1, payload = ping\<rparr>)"
proof -
  have h: "client \<lparr>client = Some idle_sock\<rparr> = Some idle_sock" "\<not> closed idle_sock"
    "rx idle_sock = []" "length ping < 2 ^ 32"
    by (simp_all add: idle_sock_def ping_def)
  note t = read_probe_consumes_nothing [OF h(1-3)]
  have a: "read False \<lparr>client = Some idle_sock\<rparr>
        = (Returns None, \<lparr>client = Some (idle_sock\<lparr>blocking := False\<rparr>)\<rparr>)"
    using t by simp
  have b: "fst (read False (arrive [Chunk (encode 1 ping)]
                  (snd (read False \<lparr>client = Some idle_sock\<rparr>))))
        = Returns (Some \<lparr>ptype = 1, payload = ping\<rparr>)"
    using t h(4) by blast
  show ?thesis
    using h a b by blast
qed

section \<open>The blocking mode after a read\<close>

lemma read_raw_is_blocking:
  "read_raw n self = (r, self') \<Longrightarrow> is_blocking self' = is_blocking self"
  by (auto simp: read_raw_def sock_recv_def is_blocking_def
      split: option.splits if_splits list.splits rx_event.splits)

lemma read_value_is_blocking:
  "read_value n v self = (r, self') \<Longrightarrow> is_blocking self' = is_blocking self"
proof (induction n v self rule: read_value.induct)
  case (1 n v self)
  show ?case
  proof (cases "0 < n")
    case False
    with "1.prems" show ?thesis by simp
  next
    case True
    obtain r1 self1 where rr: "read_raw n self = (r1, self1)"
      by (cases "read_raw n self")
    have b1: "is_blocking self1 = is_blocking self"
      using rr by (rule read_raw_is_blocking)
    show ?thesis
    proof (cases r1)
      case (Returns chunk)
      with True rr "1.prems"
      have "read_value (n - length chunk) (v @ chunk) self1 = (r, self')"
        by simp
      with "1.IH" [OF True rr [symmetric, unfolded Returns] refl] b1 Returns
      show ?thesis by simp
    next
      case (Raises e)
      with True rr "1.prems" b1 show ?thesis by auto
    next
      case Blocks
      with True rr "1.prems" b1 show ?thesis by auto
    qed
  qed
qed

lemma setblocking_True_is_blocking:
  "setblocking True self = (Returns u, self') \<Longrightarrow> is_blocking self'"
  by (auto simp: setblocking_def sock_setblocking_def is_blocking_def
      split: option.splits if_splits)

lemma read_frame_is_blocking:
  assumes "read_frame buffer self = (Returns x, self')"
  shows "is_blocking self'"
proof -
  obtain r1 self1 where s1: "setblocking True self = (r1, self1)"
    by (cases "setblocking True self")
  obtain r2 self2 where s2: "read_raw 4 self1 = (r2, self2)"
    by (cases "read_raw 4 self1")
  from assms s1 obtain u where r1: "r1 = Returns u"
    by (cases r1) (auto simp: read_frame_def)
  from assms s1 s2 r1 obtain len where r2: "r2 = Returns len"
    by (cases r2) (auto simp: read_frame_def)
  from assms s1 s2 r1 r2 obtain n where n: "unpack_be32 len = Inr n"
    by (cases "unpack_be32 len") (auto simp: read_frame_def)
  obtain r3 self3 where s3: "read_value (unat n) [] self2 = (r3, self3)"
    by (cases "read_value (unat n) [] self2")
  from assms s1 s2 r1 r2 n s3 have "self' = self3"
    by (cases r3) (auto simp: read_frame_def split: sum.splits)
  moreover have "is_blocking self1"
    using s1 r1 by (auto dest: setblocking_True_is_blocking)
  moreover have "is_blocking self2 = is_blocking self1"
    using s2 by (rule read_raw_is_blocking)
  moreover have "is_blocking self3 = is_blocking self2"
    using s3 by (rule read_value_is_blocking)
  ultimately show ?thesis by simp
qed

text \<open>
  C9: whenever \<^verbatim>\<open>read\<close> returns a packet, with \<^verbatim>\<open>block\<close> true or false, the socket
  is in blocking mode on return.
\<close>

theorem read_packet_leaves_blocking:
  assumes "read block self = (Returns (Some packet), self')"
  shows "\<exists>s'. client self' = Some s' \<and> blocking s'"
proof -
  have "is_blocking self'"
    using assms
    by (auto simp: read_def split: if_splits prod.splits outcome.splits exn.splits
        dest: read_frame_is_blocking)
  then show ?thesis
    by (auto simp: is_blocking_def split: option.splits)
qed

theorem read_packet_leaves_blocking_witness:
  "read False
     \<lparr>client = Some (idle_sock\<lparr>rx := [Chunk (encode 1 ping)], blocking := False\<rparr>)\<rparr>
     = (Returns (Some \<lparr>ptype = 1, payload = ping\<rparr>),
        \<lparr>client = Some (idle_sock\<lparr>rx := [], blocking := True\<rparr>)\<rparr>)
   \<and> (\<exists>s'. client \<lparr>client = Some (idle_sock\<lparr>rx := [], blocking := True\<rparr>)\<rparr> = Some s'
          \<and> blocking s')"
proof -
  have r: "read False
     \<lparr>client = Some (idle_sock\<lparr>rx := [Chunk (encode 1 ping)], blocking := False\<rparr>)\<rparr>
     = (Returns (Some \<lparr>ptype = 1, payload = ping\<rparr>),
        \<lparr>client = Some (idle_sock\<lparr>rx := [], blocking := True\<rparr>)\<rparr>)"
    using read_whole_frame
      [of "\<lparr>client = Some (idle_sock\<lparr>rx := [Chunk (encode 1 ping)], blocking := False\<rparr>)\<rparr>"
        "idle_sock\<lparr>rx := [Chunk (encode 1 ping)], blocking := False\<rparr>" ping 1 "[]" False]
    by (simp add: idle_sock_def ping_def)
  show ?thesis
    using r read_packet_leaves_blocking [OF r] by simp
qed

section \<open>Sending\<close>

text \<open>
  Partial writes: when every \<^verbatim>\<open>send\<close> of the socket accepts at least one byte, the
  loop ends within as many rounds as there are bytes, and the bytes accepted are the
  buffer, once and in order.
\<close>

lemma send_raw_loop_partial_writes:
  assumes "client self = Some s" and "\<not> closed s"
    and "\<forall>i. \<exists>n. 0 < n \<and> tx s i = Room n" and "length data \<le> fuel"
  shows "\<exists>k. send_raw_loop fuel data self
           = (Some (Returns ()),
              self\<lparr>client := Some (s\<lparr>tx_calls := tx_calls s + k,
                                       wire := wire s @ data\<rparr>)\<rparr>)"
  using assms
proof (induction fuel arbitrary: data self s)
  case 0
  then have "data = []" by simp
  moreover have "self\<lparr>client := Some (s\<lparr>tx_calls := tx_calls s + 0,
                    wire := wire s @ []\<rparr>)\<rparr> = self"
    using "0.prems"(1) by simp
  ultimately show ?case by (intro exI [of _ 0]) simp
next
  case (Suc fuel)
  show ?case
  proof (cases "data = []")
    case True
    have "self\<lparr>client := Some (s\<lparr>tx_calls := tx_calls s + 0,
            wire := wire s @ []\<rparr>)\<rparr> = self"
      using Suc.prems(1) by simp
    with True show ?thesis by (intro exI [of _ 0]) simp
  next
    case False
    from Suc.prems(3) obtain n where n: "0 < n" "tx s (tx_calls s) = Room n"
      by blast
    let ?s1 = "s\<lparr>tx_calls := Suc (tx_calls s), wire := wire s @ take n data\<rparr>"
    let ?self1 = "self\<lparr>client := Some ?s1\<rparr>"
    have cs: "client_send data self = (Returns (min n (length data)), ?self1)"
      using Suc.prems n by (simp add: client_send_def sock_send_def)
    have len: "length (drop (min n (length data)) data) \<le> fuel"
      using Suc.prems(4) n(1) False by (cases data) auto
    have "\<exists>k. send_raw_loop fuel (drop (min n (length data)) data) ?self1
           = (Some (Returns ()),
              ?self1\<lparr>client := Some (?s1\<lparr>tx_calls := tx_calls ?s1 + k,
                 wire := wire ?s1 @ drop (min n (length data)) data\<rparr>)\<rparr>)"
      by (rule Suc.IH) (use Suc.prems len in simp_all)
    then obtain k where k: "send_raw_loop fuel (drop (min n (length data)) data) ?self1
           = (Some (Returns ()),
              ?self1\<lparr>client := Some (?s1\<lparr>tx_calls := tx_calls ?s1 + k,
                 wire := wire ?s1 @ drop (min n (length data)) data\<rparr>)\<rparr>)"
      by blast
    have td: "take n data @ drop (min n (length data)) data = data"
      by (simp add: min_def)
    have "send_raw_loop (Suc fuel) data self
           = (Some (Returns ()),
              self\<lparr>client := Some (s\<lparr>tx_calls := tx_calls s + Suc k,
                                       wire := wire s @ data\<rparr>)\<rparr>)"
      using False cs k td by simp
    then show ?thesis by blast
  qed
qed

text \<open>A would-block error costs one round of the loop and nothing else.\<close>

lemma send_raw_loop_would_block:
  assumes "client self = Some s" and "\<not> closed s" and "data \<noteq> []"
    and "tx s (tx_calls s) = TxError EAGAIN \<or> tx s (tx_calls s) = TxError EWOULDBLOCK"
  shows "send_raw_loop (Suc fuel) data self
           = send_raw_loop fuel data (self\<lparr>client := Some (s\<lparr>tx_calls := Suc (tx_calls s)\<rparr>)\<rparr>)"
  using assms by (auto simp: client_send_def sock_send_def)

text \<open>
  On a socket whose every \<^verbatim>\<open>send\<close> raises the same error, whatever the error
  number, the loop neither returns nor raises, however long it runs.
\<close>

lemma send_raw_loop_error_forever:
  assumes "client self = Some s" and "\<forall>i. tx s i = TxError e" and "data \<noteq> []"
  shows "fst (send_raw_loop fuel data self) = None"
  using assms
proof (induction fuel arbitrary: self s)
  case 0
  then show ?case by simp
next
  case (Suc fuel)
  show ?case
  proof (cases "closed s")
    case True
    have cs: "client_send data self = (Raises (socket_error EBADF), self)"
      using Suc.prems True by (simp add: client_send_def sock_send_def)
    have "fst (send_raw_loop fuel data self) = None"
      using Suc.prems by (intro Suc.IH) auto
    then show ?thesis
      using Suc.prems(3) cs by simp
  next
    case False
    let ?self1 = "self\<lparr>client := Some (s\<lparr>tx_calls := Suc (tx_calls s)\<rparr>)\<rparr>"
    have cs: "client_send data self = (Raises (socket_error e), ?self1)"
      using Suc.prems False by (simp add: client_send_def sock_send_def)
    have "fst (send_raw_loop fuel data ?self1) = None"
      by (rule Suc.IH [where s = "s\<lparr>tx_calls := Suc (tx_calls s)\<rparr>"])
        (use Suc.prems in simp_all)
    then show ?thesis
      using Suc.prems(3) cs by simp
  qed
qed

text \<open>
  C3 does not hold of the code: a write failure other than would-block is not surfaced.
  On a socket whose first \<^verbatim>\<open>send\<close> fails with \<^verbatim>\<open>EPIPE\<close>, sending the packet
  of type 1 with payload \<^verbatim>\<open>b"PING"\<close> returns normally after the second round, the
  error swallowed; on a socket whose every \<^verbatim>\<open>send\<close> fails with \<^verbatim>\<open>EPIPE\<close> the
  call never returns and never raises.
\<close>

theorem send_swallows_write_failure:
  "send 2 \<lparr>ptype = 1, payload = ping\<rparr> \<lparr>client = Some flaky_sock\<rparr>
     = (Some (Returns ()),
        \<lparr>client = Some (flaky_sock\<lparr>tx_calls := 2, wire := encode 1 ping\<rparr>)\<rparr>)
   \<and> (\<forall>fuel. fst (send fuel \<lparr>ptype = 1, payload = ping\<rparr> \<lparr>client = Some broken_sock\<rparr>)
          = None)"
proof -
  have ne: "encode 1 ping \<noteq> []"
    by (simp add: encode_def pack_be32_def)
  have "send (Suc (Suc 0)) \<lparr>ptype = 1, payload = ping\<rparr> \<lparr>client = Some flaky_sock\<rparr>
     = (Some (Returns ()),
        \<lparr>client = Some (flaky_sock\<lparr>tx_calls := Suc (Suc 0), wire := encode 1 ping\<rparr>)\<rparr>)"
    by (simp add: send_def send_raw_def buffer_of_def client_send_def sock_send_def
        flaky_sock_def idle_sock_def encode_def pack_be32_def ping_def)
  then have "send 2 \<lparr>ptype = 1, payload = ping\<rparr> \<lparr>client = Some flaky_sock\<rparr>
     = (Some (Returns ()),
        \<lparr>client = Some (flaky_sock\<lparr>tx_calls := 2, wire := encode 1 ping\<rparr>)\<rparr>)"
    by (simp only: numeral_2_eq_2)
  moreover
  have "fst (send fuel \<lparr>ptype = 1, payload = ping\<rparr> \<lparr>client = Some broken_sock\<rparr>) = None"
    for fuel
    unfolding send_def send_raw_def buffer_of_def
    using send_raw_loop_error_forever [of "\<lparr>client = Some broken_sock\<rparr>" broken_sock EPIPE
        "encode 1 ping" fuel] ne
    by (simp add: broken_sock_def)
  ultimately show ?thesis by blast
qed

section \<open>Closing the client\<close>

text \<open>
  C8, as the claim states it, fails: \<^verbatim>\<open>close\<close> on a client that was never connected
  returns normally.
\<close>

theorem close_unconnected_returns:
  "TLVClient_close \<lparr>client = None\<rparr> = (Returns (), \<lparr>client = None\<rparr>)"
  by (simp add: TLVClient_close_def)

text \<open>
  C8 (amended): \<^verbatim>\<open>close\<close> never fails. On a client that was never connected it
  returns and changes nothing; on a client with a socket, open or already closed, it
  returns with the socket closed.
\<close>

theorem close_never_fails:
  "fst (TLVClient_close self) = Returns ()
   \<and> snd (TLVClient_close self)
       = (case client self of
            None \<Rightarrow> self
          | Some s \<Rightarrow> self\<lparr>client := Some (s\<lparr>closed := True\<rparr>)\<rparr>)"
  by (simp add: TLVClient_close_def sock_close_def split: option.splits)

section \<open>The egress buffer\<close>

lemma get_served:
  assumes "methods self (urlpath self) = Some handlers" and "req_path request = urlpath self"
    and "faults request = []"
  shows "HTTPListener_get request self
           = (Returns (),
              request\<lparr>statuses := statuses request @ [200],
                      wfile := wfile request @ egress self\<rparr>,
              self\<lparr>egress := []\<rparr>)"
  using assms
  by (simp add: HTTPListener_get_def dispatch_def handlers_def TLVServerHTTP_get_def
      send_status_def wfile_write_def next_fault_def after_write_def)

text \<open>
  C5: on a transport just constructed for a path, after \<^verbatim>\<open>send(p1)\<close> and
  \<^verbatim>\<open>send(p2)\<close>, a GET request to the path whose response can be written is answered
  with status 200 and the serialized \<open>p1\<close> followed by the serialized \<open>p2\<close> as body,
  and the egress buffer is empty afterwards; a GET that follows at once is answered with
  status 200 and an empty body.
\<close>

theorem get_drains_egress:
  assumes "req_path request1 = path" and "faults request1 = []"
    and "req_path request2 = path" and "faults request2 = []"
  shows "HTTPListener_get request1
           (TLVServerHTTP_send p2 (TLVServerHTTP_send p1 (TLVServerHTTP_init ms cb path)))
         = (Returns (),
            request1\<lparr>statuses := statuses request1 @ [200],
                     wfile := wfile request1 @ buffer_of p1 @ buffer_of p2\<rparr>,
            (TLVServerHTTP_init ms cb path)\<lparr>egress := []\<rparr>)
       \<and> HTTPListener_get request2 ((TLVServerHTTP_init ms cb path)\<lparr>egress := []\<rparr>)
         = (Returns (),
            request2\<lparr>statuses := statuses request2 @ [200], wfile := wfile request2 @ []\<rparr>,
            (TLVServerHTTP_init ms cb path)\<lparr>egress := []\<rparr>)"
proof -
  let ?t = "TLVServerHTTP_send p2 (TLVServerHTTP_send p1 (TLVServerHTTP_init ms cb path))"
  let ?t1 = "(TLVServerHTTP_init ms cb path)\<lparr>egress := []\<rparr>"
  have t: "methods ?t (urlpath ?t) = Some handlers" "urlpath ?t = path"
    "egress ?t = buffer_of p1 @ buffer_of p2" "?t\<lparr>egress := []\<rparr> = ?t1"
    by (simp_all add: TLVServerHTTP_send_def TLVServerHTTP_init_def)
  have g1: "HTTPListener_get request1 ?t
      = (Returns (),
         request1\<lparr>statuses := statuses request1 @ [200],
                  wfile := wfile request1 @ egress ?t\<rparr>,
         ?t\<lparr>egress := []\<rparr>)"
    by (rule get_served) (use assms t in simp_all)
  have t1: "methods ?t1 (urlpath ?t1) = Some handlers" "urlpath ?t1 = path"
    "egress ?t1 = []" "?t1\<lparr>egress := []\<rparr> = ?t1"
    by (simp_all add: TLVServerHTTP_init_def)
  have g2: "HTTPListener_get request2 ?t1
      = (Returns (),
         request2\<lparr>statuses := statuses request2 @ [200],
                  wfile := wfile request2 @ egress ?t1\<rparr>,
         ?t1\<lparr>egress := []\<rparr>)"
    by (rule get_served) (use assms t1 in simp_all)
  show ?thesis
    using g1 g2 by (simp only: t t1)
qed

theorem get_drains_egress_witness:
  "req_path (new_request ''/'') = ''/'' \<and> faults (new_request ''/'') = []
   \<and> HTTPListener_get (new_request ''/'')
        (TLVServerHTTP_send \<lparr>ptype = 3, payload = []\<rparr>
          (TLVServerHTTP_send \<lparr>ptype = 2, payload = ping\<rparr>
            (TLVServerHTTP_init Map.empty False ''/'')))
      = (Returns (),
         (new_request ''/'')\<lparr>statuses := [200],
            wfile := [0, 0, 0, 2, 0, 0, 0, 4, 0x50, 0x49, 0x4E, 0x47, 0, 0, 0, 3, 0, 0, 0, 0]\<rparr>,
         (TLVServerHTTP_init Map.empty False ''/'')\<lparr>egress := []\<rparr>)
   \<and> HTTPListener_get (new_request ''/'')
        ((TLVServerHTTP_init Map.empty False ''/'')\<lparr>egress := []\<rparr>)
      = (Returns (), (new_request ''/'')\<lparr>statuses := [200], wfile := []\<rparr>,
         (TLVServerHTTP_init Map.empty False ''/'')\<lparr>egress := []\<rparr>)"
proof -
  have h: "req_path (new_request ''/'') = ''/''" "faults (new_request ''/'') = []"
    by (simp_all add: new_request_def)
  have b: "buffer_of \<lparr>ptype = 2, payload = ping\<rparr> @ buffer_of \<lparr>ptype = 3, payload = []\<rparr>
         = [0, 0, 0, 2, 0, 0, 0, 4, 0x50, 0x49, 0x4E, 0x47, 0, 0, 0, 3, 0, 0, 0, 0]"
    by (simp add: buffer_of_def encode_def pack_be32_def ping_def)
  have s: "statuses (new_request ''/'') = []" "wfile (new_request ''/'') = []"
    by (simp_all add: new_request_def)
  show ?thesis
    using h get_drains_egress [OF h(1) h(2) h(1) h(2), of "\<lparr>ptype = 3, payload = []\<rparr>"
        "\<lparr>ptype = 2, payload = ping\<rparr>" Map.empty False]
    by (simp add: b s)
qed

section \<open>Moving the registration\<close>

text \<open>
  C6, as the claim states it, fails: \<^verbatim>\<open>set_urlpath\<close> registers the handlers under
  \<^verbatim>\<open>'/' + urlpath\<close>, not under the string it is given. After
  \<^verbatim>\<open>set_urlpath("x")\<close> on a transport bound to \<^verbatim>\<open>/\<close>, a GET to \<^verbatim>\<open>x\<close> is not
  served: the listener answers 404.
\<close>

theorem set_urlpath_new_path_unserved:
  "HTTPListener_get (new_request ''x'')
     (snd (set_urlpath ''x'' (TLVServerHTTP_init Map.empty False ''/'')))
   = (Returns (), (new_request ''x'')\<lparr>statuses := [404]\<rparr>,
      snd (set_urlpath ''x'' (TLVServerHTTP_init Map.empty False ''/'')))"
  by (simp add: HTTPListener_get_def dispatch_def set_urlpath_def TLVServerHTTP_init_def
      new_request_def send_status_def next_fault_def after_write_def handlers_def Let_def)

text \<open>
  C6 (amended): for a transport whose path is registered and every string \<open>path\<close>,
  \<^verbatim>\<open>set_urlpath(path)\<close> returns with the transport bound to \<^verbatim>\<open>'/' + path\<close>:
  that path is registered with the same GET and POST handlers, a GET or POST to it is
  served by them, a GET whose response can be written is answered with status 200 and
  the egress buffer; and when the old path differs from \<^verbatim>\<open>'/' + path\<close>, no
  registration remains for the old path and a GET to it gets the listener's 404.
\<close>

theorem set_urlpath_rebinds:
  assumes "methods self (urlpath self) = Some m"
  shows "fst (set_urlpath path self) = Returns ()
       \<and> urlpath (snd (set_urlpath path self)) = ''/'' @ path
       \<and> methods (snd (set_urlpath path self)) (''/'' @ path)
           = Some [(''GET'', Handler_get), (''POST'', Handler_post)]
       \<and> egress (snd (set_urlpath path self)) = egress self
       \<and> callback (snd (set_urlpath path self)) = callback self
       \<and> (\<forall>request. req_path request = ''/'' @ path \<longrightarrow>
             HTTPListener_get request (snd (set_urlpath path self))
               = TLVServerHTTP_get request (snd (set_urlpath path self))
           \<and> HTTPListener_post request (snd (set_urlpath path self))
               = TLVServerHTTP_post request (snd (set_urlpath path self)))
       \<and> (\<forall>request. req_path request = ''/'' @ path \<and> faults request = [] \<longrightarrow>
             HTTPListener_get request (snd (set_urlpath path self))
               = (Returns (),
                  request\<lparr>statuses := statuses request @ [200],
                          wfile := wfile request @ egress self\<rparr>,
                  (snd (set_urlpath path self))\<lparr>egress := []\<rparr>))
       \<and> (urlpath self \<noteq> ''/'' @ path \<longrightarrow>
             methods (snd (set_urlpath path self)) (urlpath self) = None
           \<and> (\<forall>request. req_path request = urlpath self \<and> faults request = [] \<longrightarrow>
                 HTTPListener_get request (snd (set_urlpath path self))
                   = (Returns (), request\<lparr>statuses := statuses request @ [404]\<rparr>,
                      snd (set_urlpath path self))))"
proof -
  let ?self' = "self\<lparr>urlpath := ''/'' @ path,
      methods := ((methods self)(urlpath self := None))(''/'' @ path \<mapsto> handlers)\<rparr>"
  have s: "set_urlpath path self = (Returns (), ?self')"
    using assms by (simp add: set_urlpath_def Let_def)
  have served: "HTTPListener_get request ?self'
               = (Returns (),
                  request\<lparr>statuses := statuses request @ [200],
                          wfile := wfile request @ egress ?self'\<rparr>,
                  ?self'\<lparr>egress := []\<rparr>)"
    if "req_path request = ''/'' @ path" "faults request = []" for request
    by (rule get_served) (use that in simp_all)
  have same: "HTTPListener_get request ?self' = TLVServerHTTP_get request ?self'
           \<and> HTTPListener_post request ?self' = TLVServerHTTP_post request ?self'"
    if "req_path request = ''/'' @ path" for request
    using that
    by (simp add: HTTPListener_get_def HTTPListener_post_def dispatch_def handlers_def)
  have old: "methods ?self' (urlpath self) = None
           \<and> (\<forall>request. req_path request = urlpath self \<and> faults request = [] \<longrightarrow>
                 HTTPListener_get request ?self'
                   = (Returns (), request\<lparr>statuses := statuses request @ [404]\<rparr>, ?self'))"
    if "urlpath self \<noteq> ''/'' @ path"
    using that
    by (simp add: HTTPListener_get_def dispatch_def send_status_def next_fault_def
        after_write_def)
  show ?thesis
    unfolding s fst_conv snd_conv
    apply (intro conjI)
           apply simp
          apply simp
         apply (simp add: handlers_def)
        apply simp
       apply simp
    using same apply blast
    using served apply simp
    using old apply blast
    done
qed

theorem set_urlpath_rebinds_witness:
  "methods (TLVServerHTTP_init Map.empty False ''/'')
     (urlpath (TLVServerHTTP_init Map.empty False ''/'')) = Some handlers
   \<and> fst (set_urlpath ''x'' (TLVServerHTTP_init Map.empty False ''/'')) = Returns ()
   \<and> req_path (new_request ''/x'') = ''/'' @ ''x'' \<and> faults (new_request ''/x'') = []
   \<and> HTTPListener_get (new_request ''/x'')
        (snd (set_urlpath ''x'' (TLVServerHTTP_init Map.empty False ''/'')))
      = (Returns (), (new_request ''/x'')\<lparr>statuses := [200], wfile := []\<rparr>,
         (snd (set_urlpath ''x'' (TLVServerHTTP_init Map.empty False ''/'')))\<lparr>egress := []\<rparr>)
   \<and> urlpath (TLVServerHTTP_init Map.empty False ''/'') \<noteq> ''/'' @ ''x''
   \<and> req_path (new_request ''/'') = urlpath (TLVServerHTTP_init Map.empty False ''/'')
   \<and> faults (new_request ''/'') = []
   \<and> HTTPListener_get (new_request ''/'')
        (snd (set_urlpath ''x'' (TLVServerHTTP_init Map.empty False ''/'')))
      = (Returns (), (new_request ''/'')\<lparr>statuses := [404]\<rparr>,
         snd (set_urlpath ''x'' (TLVServerHTTP_init Map.empty False ''/'')))"
proof -
  let ?t0 = "TLVServerHTTP_init Map.empty False ''/''"
  have h: "methods ?t0 (urlpath ?t0) = Some handlers"
    by (simp add: TLVServerHTTP_init_def)
  have q: "req_path (new_request ''/x'') = ''/'' @ ''x''" "faults (new_request ''/x'') = []"
    "urlpath ?t0 \<noteq> ''/'' @ ''x''" "req_path (new_request ''/'') = urlpath ?t0"
    "faults (new_request ''/'') = []"
    by (simp_all add: new_request_def TLVServerHTTP_init_def)
  have v: "statuses (new_request ''/x'') = []" "wfile (new_request ''/x'') = []"
    "statuses (new_request ''/'') = []" "egress ?t0 = []"
    by (simp_all add: new_request_def TLVServerHTTP_init_def)
  note t = set_urlpath_rebinds [OF h, of "''x''"]
  have a: "fst (set_urlpath ''x'' ?t0) = Returns ()"
    using t by blast
  have b: "HTTPListener_get (new_request ''/x'') (snd (set_urlpath ''x'' ?t0))
      = (Returns (),
         (new_request ''/x'')\<lparr>statuses := statuses (new_request ''/x'') @ [200],
            wfile := wfile (new_request ''/x'') @ egress ?t0\<rparr>,
         (snd (set_urlpath ''x'' ?t0))\<lparr>egress := []\<rparr>)"
    using t q(1,2) by blast
  have c: "HTTPListener_get (new_request ''/'') (snd (set_urlpath ''x'' ?t0))
      = (Returns (),
         (new_request ''/'')\<lparr>statuses := statuses (new_request ''/'') @ [404]\<rparr>,
         snd (set_urlpath ''x'' ?t0))"
    using t q(3,4,5) by blast
  show ?thesis
    using h q a b c by (simp only: v append_Nil simp_thms)
qed

section \<open>The POST handler\<close>

text \<open>
  C7: for a POST request whose path is the transport's path, whose Content-Length is a
  number \<open>n \<ge> 0\<close>, whose body is there and is a well-formed frame, and whose status
  line can be written, the handler reads exactly \<open>n\<close> bytes as body and returns
  normally whether the write of the egress buffer into the response succeeds or raises
  (a failure leaves the response body as it was); with a callback registered, the
  callback is called exactly once, with the packet decoded from the body, and without
  one nothing is called.
\<close>

theorem post_swallows_write_failure:
  assumes "req_path request = urlpath self" and "content_length request = Inr n"
    and "0 \<le> n" and "nat n \<le> length (rfile request)"
    and "next_fault request = None"
    and "decode (take (nat n) (rfile request)) = Inr packet"
  shows "length (take (nat n) (rfile request)) = nat n
       \<and> TLVServerHTTP_post request self
         = (Returns (),
            request\<lparr>rfile := drop (nat n) (rfile request),
                    statuses := statuses request @ [200],
                    wfile := (case next_fault (after_write request) of
                                None \<Rightarrow> wfile request @ egress self
                              | Some e \<Rightarrow> wfile request),
                    faults := tl (tl (faults request))\<rparr>,
            if callback self then self\<lparr>received := received self @ [packet]\<rparr> else self)"
proof -
  have rd: "rfile_read n request
      = (Returns (take (nat n) (rfile request)),
         request\<lparr>rfile := drop (nat n) (rfile request)\<rparr>)"
    using assms(3) by (simp add: rfile_read_def)
  let ?r1 = "request\<lparr>rfile := drop (nat n) (rfile request)\<rparr>"
  have nf: "next_fault ?r1 = None"
    using assms(5) by (simp add: next_fault_def)
  let ?r2 = "(after_write ?r1)\<lparr>statuses := statuses ?r1 @ [200]\<rparr>"
  have st: "send_status 200 ?r1 = (Returns (), ?r2)"
    using nf by (simp add: send_status_def)
  have nf2: "next_fault ?r2 = next_fault (after_write request)"
    by (simp add: next_fault_def after_write_def)
  have wr: "snd (wfile_write (egress self) ?r2)
      = request\<lparr>rfile := drop (nat n) (rfile request),
                statuses := statuses request @ [200],
                wfile := (case next_fault (after_write request) of
                            None \<Rightarrow> wfile request @ egress self
                          | Some e \<Rightarrow> wfile request),
                faults := tl (tl (faults request))\<rparr>"
  proof (cases "next_fault (after_write request)")
    case None
    moreover from None have "next_fault ?r2 = None"
      using nf2 by simp
    ultimately show ?thesis
      by (simp add: wfile_write_def after_write_def)
  next
    case (Some e)
    moreover from Some have "next_fault ?r2 = Some e"
      using nf2 by simp
    ultimately show ?thesis
      by (simp add: wfile_write_def after_write_def)
  qed
  have "TLVServerHTTP_post request self
         = (Returns (),
            request\<lparr>rfile := drop (nat n) (rfile request),
                    statuses := statuses request @ [200],
                    wfile := (case next_fault (after_write request) of
                                None \<Rightarrow> wfile request @ egress self
                              | Some e \<Rightarrow> wfile request),
                    faults := tl (tl (faults request))\<rparr>,
            if callback self then self\<lparr>received := received self @ [packet]\<rparr> else self)"
    unfolding TLVServerHTTP_post_def
    by (simp only: assms(1,2,6) rd st wr Let_def prod.case outcome.case sum.case
        simp_thms if_False split: if_splits) simp
  with assms(4) show ?thesis by simp
qed

theorem post_swallows_write_failure_witness:
  "req_path ack_post = urlpath (TLVServerHTTP_init Map.empty True ''/'')
   \<and> content_length ack_post = Inr 11 \<and> (0 :: int) \<le> 11
   \<and> nat 11 \<le> length (rfile ack_post) \<and> next_fault ack_post = None
   \<and> next_fault (after_write ack_post) = Some (socket_error EPIPE)
   \<and> decode (take (nat 11) (rfile ack_post)) = Inr \<lparr>ptype = 3, payload = ack\<rparr>
   \<and> TLVServerHTTP_post ack_post (TLVServerHTTP_init Map.empty True ''/'')
       = (Returns (),
          ack_post\<lparr>rfile := [], statuses := [200], wfile := [], faults := []\<rparr>,
          (TLVServerHTTP_init Map.empty True ''/'')
            \<lparr>received := [\<lparr>ptype = 3, payload = ack\<rparr>]\<rparr>)"
proof -
  let ?t = "TLVServerHTTP_init Map.empty True ''/''"
  have e: "rfile ack_post = encode 3 ack" "length (encode 3 ack) = 11"
    by (simp_all add: ack_post_def length_encode ack_def)
  have d: "decode (take (nat 11) (rfile ack_post)) = Inr \<lparr>ptype = 3, payload = ack\<rparr>"
    using decode_encode [of ack 3] by (simp add: e) (simp add: ack_def)
  have h: "req_path ack_post = urlpath ?t" "content_length ack_post = Inr 11"
    "(0 :: int) \<le> 11" "nat 11 \<le> length (rfile ack_post)" "next_fault ack_post = None"
    by (simp_all add: e) (simp_all add: ack_post_def TLVServerHTTP_init_def next_fault_def)
  have f: "next_fault (after_write ack_post) = Some (socket_error EPIPE)"
    by (simp add: ack_post_def next_fault_def after_write_def)
  have v: "drop 11 (rfile ack_post) = []" "statuses ack_post = []" "wfile ack_post = []"
    "tl (tl (faults ack_post)) = []" "callback ?t" "received ?t = []"
    by (simp_all add: e) (simp_all add: ack_post_def TLVServerHTTP_init_def)
  show ?thesis
    using h f d post_swallows_write_failure [OF h d]
    by (simp add: v)
qed

section \<open>Retrieving a file\<close>

lemma foldl_append_blocks:
  "foldl (\<lambda>fp_content block. fp_content @ block) acc blocks = acc @ concat blocks"
  by (induction blocks arbitrary: acc) simp_all

text \<open>
  C10: for every remote file name and whatever \<^verbatim>\<open>retrbinary\<close> does,
  \<^verbatim>\<open>get_file\<close> raises nothing: it returns the blocks of the file put together when
  the retrieval succeeds, and the empty byte string when it raises.
\<close>

theorem get_file_never_raises:
  "get_file retrbinary remote_file
     = Returns (case snd (retrbinary (''RETR '' @ remote_file)) of
                  None \<Rightarrow> concat (fst (retrbinary (''RETR '' @ remote_file)))
                | Some e \<Rightarrow> [])
   \<and> (\<forall>e. get_file retrbinary remote_file \<noteq> Raises e)"
  by (cases "retrbinary (''RETR '' @ remote_file)")
    (simp add: get_file_def retrieve_def foldl_append_blocks split: option.splits)

end
